theory Spec2Isabelle
  imports Main
begin

unbundle bit_operations_syntax

section \<open>Python strings\<close>

text \<open>
  A Python \<^verbatim>\<open>str\<close> is a sequence of Unicode code points; \<^verbatim>\<open>len\<close> and slicing count
  code points.  A code point is modelled as a natural number and a string as a list of
  them.  \<open>py\<close> turns an ASCII literal into such a string.
\<close>

type_synonym pystr = "nat list"

definition py :: "string \<Rightarrow> pystr" where
  "py s = map of_char s"

text \<open>
  The characters for which \<^verbatim>\<open>str.isspace\<close> holds.  Both \<^verbatim>\<open>str.strip()\<close> without argument
  and the class \<^verbatim>\<open>\s\<close> of a \<^verbatim>\<open>str\<close> pattern use this predicate.
\<close>

definition is_space :: "nat \<Rightarrow> bool" where
  "is_space c \<longleftrightarrow>
     (9 \<le> c \<and> c \<le> 13) \<or> (28 \<le> c \<and> c \<le> 32) \<or> c = 133 \<or> c = 160 \<or> c = 5760 \<or>
     (8192 \<le> c \<and> c \<le> 8202) \<or> c = 8232 \<or> c = 8233 \<or> c = 8239 \<or> c = 8287 \<or>
     c = 12288"

text \<open>\<^verbatim>\<open>s.strip()\<close>\<close>

definition strip :: "pystr \<Rightarrow> pystr" where
  "strip s = rev (dropWhile is_space (rev (dropWhile is_space s)))"

text \<open>The line feed and the equals sign.\<close>

abbreviation LF :: nat where "LF \<equiv> 10"
abbreviation EQ :: nat where "EQ \<equiv> 61"

section \<open>The heading pattern\<close>

text \<open>
  \<^verbatim>\<open>HEADING_RE = re.compile(r"^(=+)\s*(.*?)\s*\1$")\<close>, used as \<^verbatim>\<open>HEADING_RE.match(block)\<close>.
  The matcher is the backtracking search of the regular expression engine, one function
  per item of the pattern, each trying its alternatives in the engine's order:
  the greedy items the longest first, the lazy group the shortest first.  The result is
  the text of group 2 of the first successful path, \<open>None\<close> when no path succeeds.
\<close>

text \<open>
  \<^verbatim>\<open>\1$\<close>: the text of group 1 again, then the end of the string or the position before
  a line feed that ends the string.
\<close>

definition match_backref_end :: "pystr \<Rightarrow> pystr \<Rightarrow> bool" where
  "match_backref_end g1 rest \<longleftrightarrow> rest = g1 \<or> rest = g1 @ [LF]"

text \<open>\<^verbatim>\<open>\s*\1$\<close>: greedy, so one more space is tried before stopping.\<close>

fun match_ws_tail :: "pystr \<Rightarrow> pystr \<Rightarrow> bool" where
  "match_ws_tail g1 [] = match_backref_end g1 []"
| "match_ws_tail g1 (c # cs) =
     (if is_space c then (match_ws_tail g1 cs \<or> match_backref_end g1 (c # cs))
      else match_backref_end g1 (c # cs))"

text \<open>
  \<^verbatim>\<open>(.*?)\s*\1$\<close>: lazy, so the rest of the pattern is tried before group 2 takes one more
  character; \<^verbatim>\<open>.\<close> takes any character but the line feed.  \<open>acc\<close> is group 2 so far,
  reversed.
\<close>

fun match_name :: "pystr \<Rightarrow> pystr \<Rightarrow> pystr \<Rightarrow> pystr option" where
  "match_name g1 acc [] = (if match_ws_tail g1 [] then Some (rev acc) else None)"
| "match_name g1 acc (c # cs) =
     (if match_ws_tail g1 (c # cs) then Some (rev acc)
      else if c = LF then None
      else match_name g1 (c # acc) cs)"

text \<open>\<^verbatim>\<open>\s*(.*?)\s*\1$\<close>: greedy on the leading white space.\<close>

fun match_ws_name :: "pystr \<Rightarrow> pystr \<Rightarrow> pystr option" where
  "match_ws_name g1 [] = match_name g1 [] []"
| "match_ws_name g1 (c # cs) =
     (if is_space c then
        (case match_ws_name g1 cs of
           Some g2 \<Rightarrow> Some g2
         | None \<Rightarrow> match_name g1 [] (c # cs))
      else match_name g1 [] (c # cs))"

text \<open>
  \<^verbatim>\<open>(=+)\<close>: greedy; \<open>n\<close> is the number of equals signs group 1 takes, tried from the
  whole leading run down to one.
\<close>

fun match_marker :: "pystr \<Rightarrow> nat \<Rightarrow> pystr option" where
  "match_marker block 0 = None"
| "match_marker block (Suc n) =
     (case match_ws_name (take (Suc n) block) (drop (Suc n) block) of
        Some g2 \<Rightarrow> Some g2
      | None \<Rightarrow> match_marker block n)"

definition HEADING_RE_match :: "pystr \<Rightarrow> pystr option" where
  "HEADING_RE_match block = match_marker block (length (takeWhile (\<lambda>c. c = EQ) block))"

section \<open>Splitting into blocks\<close>

text \<open>
  \<^verbatim>\<open>re.split(r"\n\s*\n", s)\<close>.  \<open>match_sep_tail\<close> is \<^verbatim>\<open>\s*\n\<close> at the start of its argument
  (greedy: the separator ends at the last line feed of the white space run) and returns
  what follows the match.
\<close>

fun match_sep_tail :: "pystr \<Rightarrow> pystr option" where
  "match_sep_tail [] = None"
| "match_sep_tail (c # cs) =
     (if is_space c then
        (case match_sep_tail cs of
           Some r \<Rightarrow> Some r
         | None \<Rightarrow> if c = LF then Some cs else None)
      else None)"

definition match_sep :: "pystr \<Rightarrow> pystr option" where
  "match_sep s = (case s of [] \<Rightarrow> None | c # cs \<Rightarrow> if c = LF then match_sep_tail cs else None)"

lemma match_sep_tail_length: "match_sep_tail s = Some r \<Longrightarrow> length r < length s"
  by (induction s arbitrary: r) (auto split: if_splits option.splits)

lemma match_sep_length: "match_sep s = Some r \<Longrightarrow> length r < length s"
  by (cases s) (auto simp: match_sep_def split: if_splits dest: match_sep_tail_length)

text \<open>
  The scan of \<^verbatim>\<open>re.split\<close>: the separator is looked for at each position from the left;
  \<open>cur\<close> is the piece read so far, reversed.
\<close>

function re_split :: "pystr \<Rightarrow> pystr \<Rightarrow> pystr list" where
  "re_split cur [] = [rev cur]"
| "re_split cur (c # cs) =
     (case match_sep (c # cs) of
        Some r \<Rightarrow> rev cur # re_split [] r
      | None \<Rightarrow> re_split (c # cur) cs)"
  by pat_completeness auto
termination
  by (relation "measure (\<lambda>(cur, s). length s)") (auto dest: match_sep_length)

section \<open>The segmenter\<close>

text \<open>
  A row of the segmenter is \<^verbatim>\<open>(section, paragraph, paragraph_index)\<close>.
  \<^verbatim>\<open>per_section_index\<close> is a dictionary from section names to the next index.
\<close>

type_synonym sec_para = "pystr \<times> pystr \<times> nat"

text \<open>\<^verbatim>\<open>per_section_index.get(current_section, 0)\<close>\<close>

definition get_index :: "(pystr \<rightharpoonup> nat) \<Rightarrow> pystr \<Rightarrow> nat" where
  "get_index per_section_index s = (case per_section_index s of None \<Rightarrow> 0 | Some i \<Rightarrow> i)"

text \<open>
  The body of the loop over the blocks, on the state
  \<^verbatim>\<open>(current_section, per_section_index, rows)\<close>.
\<close>

definition block_step ::
  "pystr \<times> (pystr \<rightharpoonup> nat) \<times> sec_para list \<Rightarrow> pystr \<Rightarrow> pystr \<times> (pystr \<rightharpoonup> nat) \<times> sec_para list"
where
  "block_step st b =
     (case st of (current_section, per_section_index, rows) \<Rightarrow>
        let block = strip b in
        if block = [] then st
        else
          (case HEADING_RE_match block of
             Some g2 \<Rightarrow>
               (let section_name = strip g2
                in (if section_name \<noteq> [] then section_name else current_section,
                    per_section_index, rows))
           | None \<Rightarrow>
               (let idx = get_index per_section_index current_section
                in (current_section,
                    per_section_index(current_section \<mapsto> idx + 1),
                    rows @ [(current_section, block, idx)]))))"

definition split_into_section_paragraphs :: "pystr \<Rightarrow> sec_para list" where
  "split_into_section_paragraphs extract_text =
     (if extract_text = [] then []
      else
        let blocks = re_split [] (strip extract_text)
        in snd (snd (foldl block_step (py ''Lead'', Map.empty, []) blocks)))"


section \<open>The identifier\<close>

text \<open>
  \<^verbatim>\<open>hashlib.sha1\<close> on a list of bytes.  A byte and a 32-bit word are natural numbers;
  the arithmetic of the words wraps around at \<open>2 ^ 32 = 4294967296\<close>.
\<close>

definition add32 :: "nat \<Rightarrow> nat \<Rightarrow> nat" where
  "add32 x y = (x + y) mod 4294967296"

definition rotl :: "nat \<Rightarrow> nat \<Rightarrow> nat" where
  "rotl n x = (x * 2 ^ n) mod 4294967296 + x div 2 ^ (32 - n)"

definition not32 :: "nat \<Rightarrow> nat" where
  "not32 x = 4294967295 - x"

definition sha1_f :: "nat \<Rightarrow> nat \<Rightarrow> nat \<Rightarrow> nat \<Rightarrow> nat" where
  "sha1_f i b c d =
     (if i < 20 then (b AND c) OR (not32 b AND d)
      else if i < 40 then b XOR c XOR d
      else if i < 60 then (b AND c) OR (b AND d) OR (c AND d)
      else b XOR c XOR d)"

definition sha1_k :: "nat \<Rightarrow> nat" where
  "sha1_k i =
     (if i < 20 then 0x5A827999 else if i < 40 then 0x6ED9EBA1
      else if i < 60 then 0x8F1BBCDC else 0xCA62C1D6)"

text \<open>
  The message schedule, the latest word first: \<open>n\<close> more words are added to the
  sixteen of the chunk.
\<close>

fun schedule :: "nat \<Rightarrow> nat list \<Rightarrow> nat list" where
  "schedule 0 ws = ws"
| "schedule (Suc n) ws =
     schedule n (rotl 1 (ws ! 2 XOR ws ! 7 XOR ws ! 13 XOR ws ! 15) # ws)"

fun rounds ::
  "nat \<Rightarrow> nat list \<Rightarrow> nat \<times> nat \<times> nat \<times> nat \<times> nat \<Rightarrow> nat \<times> nat \<times> nat \<times> nat \<times> nat"
where
  "rounds i [] s = s"
| "rounds i (w # ws) (a, b, c, d, e) =
     rounds (i + 1) ws
       (add32 (add32 (add32 (add32 (rotl 5 a) (sha1_f i b c d)) e) (sha1_k i)) w,
        a, rotl 30 b, c, d)"

text \<open>The big-endian words of a chunk, and the big-endian bytes of a word.\<close>

fun be32 :: "nat list \<Rightarrow> nat list" where
  "be32 (b0 # b1 # b2 # b3 # bs) = (((b0 * 256 + b1) * 256 + b2) * 256 + b3) # be32 bs"
| "be32 _ = []"

definition bytes4 :: "nat \<Rightarrow> nat list" where
  "bytes4 x = [x div 16777216 mod 256, x div 65536 mod 256, x div 256 mod 256, x mod 256]"

definition compress ::
  "nat \<times> nat \<times> nat \<times> nat \<times> nat \<Rightarrow> nat list \<Rightarrow> nat \<times> nat \<times> nat \<times> nat \<times> nat"
where
  "compress h chunk =
     (case h of (h0, h1, h2, h3, h4) \<Rightarrow>
        case rounds 0 (rev (schedule 64 (rev (be32 chunk)))) h of (a, b, c, d, e) \<Rightarrow>
          (add32 h0 a, add32 h1 b, add32 h2 c, add32 h3 d, add32 h4 e))"

text \<open>
  The padding: the byte 128, zeros up to 56 modulo 64, the length of the message in
  bits as eight big-endian bytes.
\<close>

definition sha1_pad :: "nat list \<Rightarrow> nat list" where
  "sha1_pad m =
     m @ [128] @ replicate ((119 - length m mod 64) mod 64) 0
       @ bytes4 (8 * length m div 4294967296) @ bytes4 (8 * length m mod 4294967296)"

fun chunks :: "nat \<Rightarrow> nat list \<Rightarrow> nat list list" where
  "chunks 0 bs = []"
| "chunks (Suc k) bs = take 64 bs # chunks k (drop 64 bs)"

definition sha1 :: "nat list \<Rightarrow> nat list" where
  "sha1 m =
     (let p = sha1_pad m in
      case foldl compress (0x67452301, 0xEFCDAB89, 0x98BADCFE, 0x10325476, 0xC3D2E1F0)
             (chunks (length p div 64) p) of
        (h0, h1, h2, h3, h4) \<Rightarrow> bytes4 h0 @ bytes4 h1 @ bytes4 h2 @ bytes4 h3 @ bytes4 h4)"

text \<open>
  The exceptions of the model.  \<^verbatim>\<open>bytes(name, "utf-8")\<close> raises \<^verbatim>\<open>UnicodeEncodeError\<close>
  on a surrogate code point; a number above \<open>0x10FFFF\<close> is no code point of a Python
  string, and the model refuses it in the same way.
\<close>

datatype py_error = UnicodeEncodeError | KeyError

definition utf8_char :: "nat \<Rightarrow> nat list option" where
  "utf8_char c =
     (if c < 128 then Some [c]
      else if c < 2048 then Some [192 + c div 64, 128 + c mod 64]
      else if 55296 \<le> c \<and> c \<le> 57343 then None
      else if c < 65536 then Some [224 + c div 4096, 128 + c div 64 mod 64, 128 + c mod 64]
      else if c \<le> 1114111 then
        Some [240 + c div 262144, 128 + c div 4096 mod 64, 128 + c div 64 mod 64, 128 + c mod 64]
      else None)"

fun utf8_encode :: "pystr \<Rightarrow> py_error + nat list" where
  "utf8_encode [] = Inr []"
| "utf8_encode (c # cs) =
     (case utf8_char c of
        None \<Rightarrow> Inl UnicodeEncodeError
      | Some bs \<Rightarrow> (case utf8_encode cs of Inl e \<Rightarrow> Inl e | Inr r \<Rightarrow> Inr (bs @ r)))"

text \<open>
  \<^verbatim>\<open>uuid.uuid5(namespace, name)\<close>, as its sixteen bytes: the first sixteen bytes of the
  SHA-1 hash of the bytes of the namespace followed by the encoded name, with the
  version set to 5 (the high half of byte 6) and the variant to RFC 4122 (the two high
  bits of byte 8).
\<close>

definition NAMESPACE_URL :: "nat list" where
  "NAMESPACE_URL = [0x6b, 0xa7, 0xb8, 0x11, 0x9d, 0xad, 0x11, 0xd1,
                    0x80, 0xb4, 0x00, 0xc0, 0x4f, 0xd4, 0x30, 0xc8]"

definition set_version5 :: "nat list \<Rightarrow> nat list" where
  "set_version5 h = (take 16 h)[6 := h ! 6 mod 16 + 80, 8 := h ! 8 mod 64 + 128]"

definition uuid5 :: "nat list \<Rightarrow> pystr \<Rightarrow> py_error + nat list" where
  "uuid5 namespace name =
     (case utf8_encode name of
        Inl e \<Rightarrow> Inl e
      | Inr bs \<Rightarrow> Inr (set_version5 (sha1 (namespace @ bs))))"

text \<open>
  \<^verbatim>\<open>str\<close> of a UUID: 32 lower-case hexadecimal digits in groups of 8, 4, 4, 4 and 12,
  joined by hyphens.
\<close>

definition hex_digit :: "nat \<Rightarrow> nat" where
  "hex_digit d = (if d < 10 then 48 + d else 87 + d)"

definition hex_bytes :: "nat list \<Rightarrow> pystr" where
  "hex_bytes bs = concat (map (\<lambda>b. [hex_digit (b div 16), hex_digit (b mod 16)]) bs)"

definition uuid_str :: "nat list \<Rightarrow> pystr" where
  "uuid_str u =
     hex_bytes (take 4 u) @ [45] @ hex_bytes (take 2 (drop 4 u)) @ [45]
       @ hex_bytes (take 2 (drop 6 u)) @ [45] @ hex_bytes (take 2 (drop 8 u)) @ [45]
       @ hex_bytes (drop 10 u)"

text \<open>\<^verbatim>\<open>str(n)\<close> for an index \<open>n\<close>, which is never negative: its decimal digits.\<close>

function str_nat :: "nat \<Rightarrow> pystr" where
  "str_nat n = (if n < 10 then [48 + n] else str_nat (n div 10) @ [48 + n mod 10])"
  by pat_completeness auto
termination
  by (relation "measure id") auto

text \<open>
  \<^verbatim>\<open>base = f"{title}||{section}||{paragraph_index}||{text[:120]}"\<close> and
  \<^verbatim>\<open>str(uuid.uuid5(uuid.NAMESPACE_URL, base))\<close>.
\<close>

definition paragraph_key :: "pystr \<Rightarrow> pystr \<Rightarrow> nat \<Rightarrow> pystr \<Rightarrow> pystr" where
  "paragraph_key title section paragraph_index text =
     title @ py ''||'' @ section @ py ''||'' @ str_nat paragraph_index @ py ''||''
       @ take 120 text"

definition make_paragraph_id :: "pystr \<Rightarrow> pystr \<Rightarrow> nat \<Rightarrow> pystr \<Rightarrow> py_error + pystr" where
  "make_paragraph_id title section paragraph_index text =
     (case uuid5 NAMESPACE_URL (paragraph_key title section paragraph_index text) of
        Inl e \<Rightarrow> Inl e
      | Inr u \<Rightarrow> Inr (uuid_str u))"


section \<open>The output table\<close>

text \<open>
  The file at \<^verbatim>\<open>out_csv\<close>: \<open>None\<close> when the path does not exist, otherwise the
  records of the file in order, each the list of its fields, as \<^verbatim>\<open>csv.reader\<close> yields
  them and \<^verbatim>\<open>csv.writer\<close> writes them (an empty line is the record \<open>[]\<close>).  The
  quoting of the fields in the text of the file is not modelled.
\<close>

type_synonym csv_file = "pystr list list option"

definition fieldnames :: "pystr list" where
  "fieldnames = [py ''id'', py ''title'', py ''url'', py ''section'',
                 py ''paragraph_index'', py ''text'']"

text \<open>The dictionary \<^verbatim>\<open>row\<close> that \<^verbatim>\<open>main\<close> builds, with its six keys.\<close>

record out_row =
  id_col :: pystr
  title_col :: pystr
  url_col :: pystr
  section_col :: pystr
  paragraph_index_col :: pystr
  text_col :: pystr

text \<open>\<^verbatim>\<open>writer.writerow(r)\<close>: the values of the row in the order of \<^verbatim>\<open>fieldnames\<close>.\<close>

definition writerow :: "out_row \<Rightarrow> pystr list" where
  "writerow r = [id_col r, title_col r, url_col r, section_col r,
                 paragraph_index_col r, text_col r]"

text \<open>
  \<^verbatim>\<open>append_rows(out_csv, rows, fieldnames)\<close> returns the file afterwards and the number
  of rows written.
\<close>

definition append_rows :: "csv_file \<Rightarrow> out_row list \<Rightarrow> csv_file \<times> nat" where
  "append_rows out_csv rows =
     (case out_csv of
        None \<Rightarrow> (Some (fieldnames # map writerow rows), length rows)
      | Some recs \<Rightarrow> (Some (recs @ map writerow rows), length rows))"

text \<open>
  A row of \<^verbatim>\<open>csv.DictReader\<close>: \<^verbatim>\<open>dict(zip(fieldnames, row))\<close>, in which a later pair
  replaces an earlier one with the same key, then the value \<^verbatim>\<open>None\<close> for each field
  name the record is too short for.  A value of the dictionary is \<open>None\<close> or a string.
  (The entry under the key \<^verbatim>\<open>None\<close> for the surplus fields of a long record is left
  out: no string is its key.)
\<close>

definition dict_row :: "pystr list \<Rightarrow> pystr list \<Rightarrow> (pystr \<rightharpoonup> pystr option)" where
  "dict_row fns r k =
     (if k \<in> set (drop (length r) fns) then Some None
      else map_option Some (map_of (rev (zip fns r)) k))"

text \<open>\<^verbatim>\<open>row.get("id")\<close>, and whether a value counts as true in a condition.\<close>

definition get_id :: "(pystr \<rightharpoonup> pystr option) \<Rightarrow> pystr option" where
  "get_id row = (case row (py ''id'') of None \<Rightarrow> None | Some v \<Rightarrow> v)"

definition truthy :: "pystr option \<Rightarrow> bool" where
  "truthy v = (case v of None \<Rightarrow> False | Some s \<Rightarrow> s \<noteq> [])"

text \<open>\<^verbatim>\<open>row["id"]\<close>, which raises \<^verbatim>\<open>KeyError\<close> when the key is missing.\<close>

definition subscript_id :: "(pystr \<rightharpoonup> pystr option) \<Rightarrow> py_error + pystr option" where
  "subscript_id row = (case row (py ''id'') of None \<Rightarrow> Inl KeyError | Some v \<Rightarrow> Inr v)"

text \<open>
  The loop of \<^verbatim>\<open>load_existing_ids\<close> over the records after the header; the reader
  skips the empty records.  The members of \<^verbatim>\<open>existing\<close> are values of dictionaries.
\<close>

fun ids_loop ::
  "pystr list \<Rightarrow> pystr list list \<Rightarrow> pystr option set \<Rightarrow> py_error + pystr option set"
where
  "ids_loop fns [] existing = Inr existing"
| "ids_loop fns (r # rs) existing =
     (if r = [] then ids_loop fns rs existing
      else if truthy (get_id (dict_row fns r)) then
        (case subscript_id (dict_row fns r) of
           Inl e \<Rightarrow> Inl e
         | Inr v \<Rightarrow> ids_loop fns rs (insert v existing))
      else ids_loop fns rs existing)"

definition load_existing_ids :: "csv_file \<Rightarrow> py_error + pystr option set" where
  "load_existing_ids csv_path =
     (case csv_path of
        None \<Rightarrow> Inr {}
      | Some [] \<Rightarrow> Inr {}
      | Some (fns # rs) \<Rightarrow> ids_loop fns rs {})"

section \<open>The driver\<close>

text \<open>
  The answer of the MediaWiki API to the request for a title: the request fails (the
  network, the status, the decoding), or it gives the pages, each with its
  \<^verbatim>\<open>extract\<close> field or without.  \<^verbatim>\<open>fetch_plaintext_extract\<close> raises in the first case,
  and takes the first page otherwise.
\<close>

datatype api_reply = Failed | Pages "pystr option list"

definition fetch_plaintext_extract :: "api_reply \<Rightarrow> pystr option" where
  "fetch_plaintext_extract reply =
     (case reply of
        Failed \<Rightarrow> None
      | Pages [] \<Rightarrow> Some []
      | Pages (page # _) \<Rightarrow> Some (strip (case page of None \<Rightarrow> [] | Some e \<Rightarrow> e)))"

text \<open>\<^verbatim>\<open>s.replace(a, b)\<close> for single characters \<open>a\<close> and \<open>b\<close>.\<close>

definition replace_char :: "nat \<Rightarrow> nat \<Rightarrow> pystr \<Rightarrow> pystr" where
  "replace_char a b s = map (\<lambda>c. if c = a then b else c) s"

definition make_row :: "pystr \<Rightarrow> pystr \<Rightarrow> pystr \<Rightarrow> nat \<Rightarrow> pystr \<Rightarrow> out_row" where
  "make_row pid title section para_idx para =
     \<lparr> id_col = pid,
       title_col = title,
       url_col = py ''https://en.wikipedia.org/wiki/'' @ replace_char 32 95 title,
       section_col = section,
       paragraph_index_col = str_nat para_idx,
       text_col = strip (replace_char LF 32 para) \<rparr>"

text \<open>
  The loop over the paragraphs of one article, on \<^verbatim>\<open>(kept, existing_ids, all_new_rows)\<close>.
  An exception of \<^verbatim>\<open>make_paragraph_id\<close> is not caught.
\<close>

fun paragraphs_loop ::
  "int \<Rightarrow> int \<Rightarrow> pystr \<Rightarrow> sec_para list \<Rightarrow> nat \<times> pystr option set \<times> out_row list
     \<Rightarrow> py_error + nat \<times> pystr option set \<times> out_row list"
where
  "paragraphs_loop min_chars max_paragraphs title [] st = Inr st"
| "paragraphs_loop min_chars max_paragraphs title ((section, para, para_idx) # rest)
       (kept, existing_ids, all_new_rows) =
     (if int kept \<ge> max_paragraphs then Inr (kept, existing_ids, all_new_rows)
      else if int (length para) < min_chars then
        paragraphs_loop min_chars max_paragraphs title rest (kept, existing_ids, all_new_rows)
      else
        (case make_paragraph_id title section para_idx para of
           Inl e \<Rightarrow> Inl e
         | Inr pid \<Rightarrow>
             if Some pid \<in> existing_ids then
               paragraphs_loop min_chars max_paragraphs title rest
                 (kept, existing_ids, all_new_rows)
             else
               paragraphs_loop min_chars max_paragraphs title rest
                 (kept + 1, insert (Some pid) existing_ids,
                  all_new_rows @ [make_row pid title section para_idx para])))"

text \<open>
  The state of the run: the ledger, the rows accepted so far, the number of them
  already written, the file, and the lines \<^verbatim>\<open>[OK] 'title': added n paragraphs\<close> printed
  so far.
\<close>

record run_state =
  existing_ids :: "pystr option set"
  all_new_rows :: "out_row list"
  total_added :: nat
  out_csv :: csv_file
  report :: "(pystr \<times> nat) list"

text \<open>
  The arguments of the command line that the loop uses; \<open>titles\<close> is the list gathered
  from \<^verbatim>\<open>--titles-file\<close> and \<^verbatim>\<open>--titles\<close>.
\<close>

record args =
  titles :: "pystr list"
  min_chars :: int
  max_paragraphs_per_article :: int

text \<open>
  The body of the loop over the titles.  \<open>wiki\<close> is what the API answers for each
  title.
\<close>

definition title_step ::
  "(pystr \<Rightarrow> api_reply) \<Rightarrow> args \<Rightarrow> run_state \<Rightarrow> pystr \<Rightarrow> py_error + run_state"
where
  "title_step wiki a st title =
     (case fetch_plaintext_extract (wiki title) of
        None \<Rightarrow> Inr st
      | Some extract \<Rightarrow>
          if extract = [] then Inr st
          else
            (case paragraphs_loop (min_chars a) (max_paragraphs_per_article a) title
                    (split_into_section_paragraphs extract)
                    (0, existing_ids st, all_new_rows st) of
               Inl e \<Rightarrow> Inl e
             | Inr (kept, ids, rows) \<Rightarrow>
                 (case append_rows (out_csv st) (drop (total_added st) rows) of
                    (file, added) \<Rightarrow>
                      Inr (st\<lparr> existing_ids := ids, all_new_rows := rows,
                               total_added := total_added st + added,
                               out_csv := file,
                               report := report st @ [(title, added)] \<rparr>))))"

fun titles_loop ::
  "(pystr \<Rightarrow> api_reply) \<Rightarrow> args \<Rightarrow> pystr list \<Rightarrow> run_state \<Rightarrow> py_error + run_state"
where
  "titles_loop wiki a [] st = Inr st"
| "titles_loop wiki a (title # rest) st =
     (case title_step wiki a st title of
        Inl e \<Rightarrow> Inl e
      | Inr st' \<Rightarrow> titles_loop wiki a rest st')"

text \<open>
  \<^verbatim>\<open>main\<close> from the test for the titles on: \<^verbatim>\<open>sys.exit(1)\<close> without titles, otherwise
  the ledger is loaded and the titles are processed.  The result is how the process
  ends: by \<^verbatim>\<open>SystemExit\<close>, by an exception nobody catches, or normally with its last
  state.
\<close>

datatype exit = SystemExit nat | Uncaught py_error

definition main :: "(pystr \<Rightarrow> api_reply) \<Rightarrow> args \<Rightarrow> csv_file \<Rightarrow> exit + run_state" where
  "main wiki a file =
     (if titles a = [] then Inl (SystemExit 1)
      else
        (case load_existing_ids file of
           Inl e \<Rightarrow> Inl (Uncaught e)
         | Inr ids \<Rightarrow>
             (case titles_loop wiki a (titles a)
                     \<lparr> existing_ids = ids, all_new_rows = [], total_added = 0,
                       out_csv = file, report = [] \<rparr> of
                Inl e \<Rightarrow> Inl (Uncaught e)
              | Inr st \<Rightarrow> Inr st)))"

section \<open>Notions used in the properties\<close>

text \<open>The indices the segmenter gave to the rows of the section \<open>s\<close>, in order.\<close>

definition indices_of :: "pystr \<Rightarrow> sec_para list \<Rightarrow> nat list" where
  "indices_of s rows =
     map (\<lambda>(sec, para, idx). idx) (filter (\<lambda>(sec, para, idx). sec = s) rows)"

text \<open>
  The invariant of the loop of the segmenter: the counter of every section is the
  number of its rows, and they carry the indices below it in order.
\<close>

definition counters_agree :: "pystr \<times> (pystr \<rightharpoonup> nat) \<times> sec_para list \<Rightarrow> bool" where
  "counters_agree st =
     (case st of (cur, per_section_index, rows) \<Rightarrow>
        \<forall>s. indices_of s rows = [0..<get_index per_section_index s])"






text \<open>
  The \<^verbatim>\<open>id\<close> values of the records \<open>rs\<close> read under the header \<open>fns\<close>.
\<close>

definition ids_of_records :: "pystr list \<Rightarrow> pystr list list \<Rightarrow> pystr option set" where
  "ids_of_records fns rs =
     (\<lambda>r. get_id (dict_row fns r)) ` {r \<in> set rs. truthy (get_id (dict_row fns r))}"



text \<open>
  Running \<open>main\<close> twice, the second time on the file the first run left: the
  number of records the second run adds to the file.
\<close>

definition the_records :: "csv_file \<Rightarrow> pystr list list" where
  "the_records tbl = (case tbl of None \<Rightarrow> [] | Some recs \<Rightarrow> recs)"

definition rows_added_by_rerun :: "(pystr \<Rightarrow> api_reply) \<Rightarrow> args \<Rightarrow> csv_file \<Rightarrow> nat option" where
  "rows_added_by_rerun wiki a file0 =
     (case main wiki a file0 of
        Inl e \<Rightarrow> None
      | Inr st1 \<Rightarrow>
          (case main wiki a (out_csv st1) of
             Inl e \<Rightarrow> None
           | Inr st2 \<Rightarrow>
               Some (length (the_records (out_csv st2)) - length (the_records (out_csv st1)))))"

text \<open>
  An example: the API answers every title with the text \<^verbatim>\<open>A\<close>, a blank line,
  \<^verbatim>\<open>B\<close>; one title \<^verbatim>\<open>T\<close>, a minimum of one character, and the cap as given.  The
  two rows the driver builds for the two paragraphs, and the states in which the runs
  of the example end.
\<close>

definition example_wiki :: "pystr \<Rightarrow> api_reply" where
  "example_wiki title = Pages [Some (py ''A\<newline>\<newline>B'')]"

definition example_args :: "int \<Rightarrow> args" where
  "example_args cap = \<lparr> titles = [py ''T''], min_chars = 1, max_paragraphs_per_article = cap \<rparr>"

definition row_A :: out_row where
  "row_A = make_row (py ''14e526bd-daaa-5952-94b3-856cbb655ae9'') (py ''T'') (py ''Lead'') 0 (py ''A'')"

definition row_B :: out_row where
  "row_B = make_row (py ''7cc983bc-b51a-5e38-8662-b922b1d56af0'') (py ''T'') (py ''Lead'') 1 (py ''B'')"



definition state_two :: run_state where
  "state_two =
     \<lparr> existing_ids = {Some (py ''7cc983bc-b51a-5e38-8662-b922b1d56af0''),
                       Some (py ''14e526bd-daaa-5952-94b3-856cbb655ae9'')},
       all_new_rows = [row_A, row_B], total_added = 2,
       out_csv = Some [fieldnames, writerow row_A, writerow row_B],
       report = [(py ''T'', 2)] \<rparr>"

section \<open>The segmenter on the examples of the specification\<close>

lemmas seg_eval =
  split_into_section_paragraphs_def block_step_def HEADING_RE_match_def strip_def
  get_index_def match_backref_end_def py_def match_sep_def is_space_def

text \<open>
  C5.  The text of two sections after a lead paragraph is segmented into the lead
  paragraph with index 0, the two paragraphs of the first section with the indices 0
  and 1, and the paragraph of the second section with index 0 again.
\<close>

theorem section_restart_example:
  "split_into_section_paragraphs
     (py ''Para A\<newline>\<newline>== Sec1 ==\<newline>\<newline>Para B\<newline>\<newline>Para C\<newline>\<newline>== Sec2 ==\<newline>\<newline>Para D'')
   = [(py ''Lead'', py ''Para A'', 0), (py ''Sec1'', py ''Para B'', 0),
      (py ''Sec1'', py ''Para C'', 1), (py ''Sec2'', py ''Para D'', 0)]"
  by (simp add: seg_eval)

text \<open>
  C2.  The block \<^verbatim>\<open>=== Not A Heading ==\<close> opens with three equals signs and closes with
  two.  The pattern matches it all the same: group 1 falls back to two equals signs,
  and the third goes into the name.  The block is taken as the heading
  \<^verbatim>\<open>= Not A Heading\<close>, no paragraph is emitted for it, and the paragraph that follows
  is put into that section.
\<close>

theorem mismatched_markers_taken_as_heading:
  "split_into_section_paragraphs (py ''=== Not A Heading ==\<newline>\<newline>Para'')
   = [(py ''= Not A Heading'', py ''Para'', 0)]"
  by (simp add: seg_eval)

section \<open>The indices within a section\<close>

lemma block_step_counters: "counters_agree st \<Longrightarrow> counters_agree (block_step st b)"
  by (cases st)
     (auto simp: counters_agree_def block_step_def Let_def indices_of_def get_index_def
           split: option.splits)

lemma foldl_block_step_counters:
  "counters_agree st \<Longrightarrow> counters_agree (foldl block_step st bs)"
  by (induction bs arbitrary: st) (simp_all add: block_step_counters)

lemma counters_agree_init: "counters_agree (lead, Map.empty, [])"
  by (simp add: counters_agree_def indices_of_def get_index_def)

lemma indices_upto_length:
  assumes "indices_of s rows = [0..<n]"
  shows "indices_of s rows = [0..<length (filter (\<lambda>(sec, para, idx). sec = s) rows)]"
proof -
  from assms have "length (indices_of s rows) = n" by simp
  then have "length (filter (\<lambda>(sec, para, idx). sec = s) rows) = n"
    by (simp add: indices_of_def)
  with assms show ?thesis by simp
qed

text \<open>
  C4.  For every text and every section name \<open>s\<close>, the indices of the rows of \<open>s\<close>, in
  the order of the output, are \<open>0, 1, 2, \<dots>\<close> up to the number of these rows.  The
  rows of \<open>s\<close> are all the rows with that name, also when other sections lie between
  them: the counter of a name goes on where it stopped.
\<close>

theorem local_index_sequence:
  "map (\<lambda>(sec, para, idx). idx)
     (filter (\<lambda>(sec, para, idx). sec = s) (split_into_section_paragraphs text))
   = [0..<length (filter (\<lambda>(sec, para, idx). sec = s) (split_into_section_paragraphs text))]"
proof (cases "text = []")
  case True
  then show ?thesis by (simp add: split_into_section_paragraphs_def)
next
  case False
  obtain cur m rows where fin:
    "foldl block_step (py ''Lead'', Map.empty, []) (re_split [] (strip text)) = (cur, m, rows)"
    by (cases "foldl block_step (py ''Lead'', Map.empty, []) (re_split [] (strip text))") auto
  have "counters_agree (cur, m, rows)"
    using foldl_block_step_counters
            [OF counters_agree_init, of "py ''Lead''" "re_split [] (strip text)"] fin
    by simp
  then have "indices_of s rows = [0..<get_index m s]"
    by (simp add: counters_agree_def)
  then have "indices_of s rows = [0..<length (filter (\<lambda>(sec, para, idx). sec = s) rows)]"
    by (rule indices_upto_length)
  moreover have "split_into_section_paragraphs text = rows"
    using False fin by (simp add: split_into_section_paragraphs_def)
  ultimately show ?thesis by (simp add: indices_of_def)
qed

section \<open>What the heading pattern matches\<close>




















section \<open>The identifier\<close>

text \<open>
  C6.  The identifier depends on the text through its first 120 characters only: two
  texts with the same first 120 characters get the same identifier (or the same
  exception), whatever the title, the section and the index.
\<close>

theorem identifier_uses_first_120:
  "take 120 t1 = take 120 t2 \<Longrightarrow>
   make_paragraph_id title section local_index t1
     = make_paragraph_id title section local_index t2"
  by (simp add: make_paragraph_id_def paragraph_key_def)

theorem identifier_uses_first_120_witness:
  "take 120 (replicate 120 97 @ [98]) = take 120 (replicate 120 97 @ [99]) \<and>
   replicate 120 97 @ [98] \<noteq> replicate 120 (97::nat) @ [99] \<and>
   make_paragraph_id (py ''T'') (py ''Lead'') 0 (replicate 120 97 @ [98])
     = make_paragraph_id (py ''T'') (py ''Lead'') 0 (replicate 120 97 @ [99])"
proof -
  have h: "take 120 (replicate 120 97 @ [98]) = take 120 (replicate 120 (97::nat) @ [99])"
    by simp
  show ?thesis
    using h identifier_uses_first_120 [OF h, of "py ''T''" "py ''Lead''" 0] by simp
qed



section \<open>Loading the ledger\<close>

lemma dict_row_blank: "get_id (dict_row fns []) = None"
  by (auto simp: get_id_def dict_row_def split: option.splits)

lemma ids_loop_collects:
  "ids_loop fns rs existing =
     Inr (existing \<union> (\<lambda>r. get_id (dict_row fns r)) `
                        {r \<in> set rs. truthy (get_id (dict_row fns r))})"
proof (induction rs arbitrary: existing)
  case Nil
  then show ?case by simp
next
  case (Cons r rs)
  show ?case
  proof (cases "truthy (get_id (dict_row fns r))")
    case True
    then have ne: "r \<noteq> []" by (auto simp: dict_row_blank truthy_def)
    from True obtain v where v: "dict_row fns r (py ''id'') = Some v"
      by (auto simp: truthy_def get_id_def split: option.splits)
    then have "subscript_id (dict_row fns r) = Inr v" "get_id (dict_row fns r) = v"
      by (simp_all add: subscript_id_def get_id_def)
    with True ne Cons.IH [of "insert v existing"] show ?thesis by auto
  next
    case False
    with Cons.IH [of existing] show ?thesis by auto
  qed
qed


section \<open>The loop over the paragraphs of an article\<close>










section \<open>The ledger and the file\<close>




lemma load_own_file:
  "load_existing_ids (Some (fns # rs)) = Inr (ids_of_records fns rs)"
  by (simp add: load_existing_ids_def ids_loop_collects ids_of_records_def)


section \<open>The loop over the titles\<close>











section \<open>The runs of the example\<close>

text \<open>
  The evaluation of SHA-1 by rewriting, and the identifiers of the two paragraphs of
  the example.
\<close>

lemma schedule_numeral:
  "schedule (numeral k) ws =
     schedule (pred_numeral k) (rotl 1 (ws ! 2 XOR ws ! 7 XOR ws ! 13 XOR ws ! 15) # ws)"
  by (simp add: numeral_eq_Suc)

lemma chunks_1: "chunks 1 bs = [take 64 bs]"
  by (simp add: numeral_eq_Suc)

lemma replicate_numeral: "replicate (numeral k) x = x # replicate (pred_numeral k) x"
  by (simp add: numeral_eq_Suc)

lemma str_nat_digit: "n < 10 \<Longrightarrow> str_nat n = [48 + n]"
  by (subst str_nat.simps) simp

lemmas id_eval =
  make_paragraph_id_def paragraph_key_def uuid5_def uuid_str_def hex_bytes_def hex_digit_def
  set_version5_def NAMESPACE_URL_def utf8_char_def py_def str_nat_digit
  sha1_def sha1_pad_def bytes4_def compress_def chunks_1 replicate_numeral schedule_numeral
  rotl_def sha1_f_def sha1_k_def add32_def not32_def

lemma id_A:
  "make_paragraph_id (py ''T'') (py ''Lead'') 0 (py ''A'')
   = Inr (py ''14e526bd-daaa-5952-94b3-856cbb655ae9'')"
  by (simp add: id_eval)

lemma id_B:
  "make_paragraph_id (py ''T'') (py ''Lead'') (Suc 0) (py ''B'')
   = Inr (py ''7cc983bc-b51a-5e38-8662-b922b1d56af0'')"
  by (simp add: id_eval)

lemma example_split:
  "split_into_section_paragraphs (py ''A\<newline>\<newline>B'')
   = [(py ''Lead'', py ''A'', 0), (py ''Lead'', py ''B'', 1)]"
  by (simp add: seg_eval)

lemma example_fetch: "fetch_plaintext_extract (example_wiki t) = Some (py ''A\<newline>\<newline>B'')"
  by (simp add: fetch_plaintext_extract_def example_wiki_def strip_def py_def is_space_def)

lemma example_nonempty: "py ''A\<newline>\<newline>B'' \<noteq> []" "length (py ''A'') = 1" "length (py ''B'') = 1"
  by (simp_all add: py_def)

lemma ids_differ:
  "py ''7cc983bc-b51a-5e38-8662-b922b1d56af0'' \<noteq> py ''14e526bd-daaa-5952-94b3-856cbb655ae9''"
  by (simp add: py_def)


lemma fold_rows:
  "make_row (py ''14e526bd-daaa-5952-94b3-856cbb655ae9'') (py ''T'') (py ''Lead'') 0 (py ''A'')
   = row_A"
  "make_row (py ''7cc983bc-b51a-5e38-8662-b922b1d56af0'') (py ''T'') (py ''Lead'') (Suc 0) (py ''B'')
   = row_B"
  by (simp_all add: row_A_def row_B_def)







section \<open>The cap\<close>



section \<open>Running the driver twice\<close>




text \<open>
  The header matters as well: on a file that exists and is empty the first run
  writes no header, the second run reads the first row as the header and finds no
  identifier, and both rows are written again.
\<close>

lemma load_without_header:
  "load_existing_ids (Some [writerow row_A, writerow row_B]) = Inr {}"
  by (simp add: load_own_file ids_of_records_def get_id_def dict_row_def writerow_def
        row_A_def row_B_def make_row_def truthy_def py_def str_nat_digit replace_char_def
        strip_def is_space_def)

lemma run_on_empty_file:
  "main example_wiki (example_args 2) (Some [])
   = Inr (state_two\<lparr>out_csv := Some [writerow row_A, writerow row_B]\<rparr>)"
  by (simp add: main_def example_args_def title_step_def example_fetch example_nonempty
        example_split id_A id_B ids_differ load_existing_ids_def append_rows_def state_two_def
        row_A_def row_B_def)

lemma rerun_on_headerless_file:
  "main example_wiki (example_args 2) (Some [writerow row_A, writerow row_B])
   = Inr (state_two\<lparr>out_csv := Some [writerow row_A, writerow row_B,
                                      writerow row_A, writerow row_B]\<rparr>)"
  by (simp add: main_def example_args_def title_step_def example_fetch example_nonempty
        example_split id_A id_B ids_differ load_without_header append_rows_def state_two_def
        fold_rows)

lemma rerun_needs_header:
  "rows_added_by_rerun example_wiki (example_args 2) (Some []) = Some 2"
  by (simp add: rows_added_by_rerun_def run_on_empty_file rerun_on_headerless_file
        the_records_def)

end
